theory Spec2Isabelle
  imports Main "HOL-Library.Word"
begin

unbundle bit_operations_syntax

section \<open>DNS messages and wire framing (core/dnsserver QUIC servers)\<close>

type_synonym byte = "8 word"
type_synonym uint16 = "16 word"

text \<open>
  The part of a \<^verbatim>\<open>dns.Msg\<close> the servers and the proxy look at: the message ID, the
  response code, and the option codes of its OPT record (\<^verbatim>\<open>msg.IsEdns0()\<close> is
  \<^verbatim>\<open>nil\<close> when there is no OPT record). \<open>Body\<close> stands for the rest of the message.
\<close>

record Msg =
  MsgId :: uint16
  Rcode :: int
  Edns0 :: "uint16 list option"
  Body :: "byte list"

definition EDNS0TCPKEEPALIVE :: uint16 where
  "EDNS0TCPKEEPALIVE = 0xb"

definition minDNSPacketSize :: nat where
  "minDNSPacketSize = 12 + 5"

text \<open>\<^verbatim>\<open>dns.MaxMsgSize\<close>, the length of every buffer of the servers' \<^verbatim>\<open>bytesPool\<close>.\<close>

definition MaxMsgSize :: nat where
  "MaxMsgSize = 65535"

text \<open>\<^verbatim>\<open>binary.BigEndian.PutUint16\<close> and \<^verbatim>\<open>binary.BigEndian.Uint16\<close>. Reading from a
  slice shorter than two bytes panics in Go: \<open>None\<close>.\<close>

definition PutUint16 :: "uint16 \<Rightarrow> byte list" where
  "PutUint16 v = [ucast (drop_bit 8 v), ucast v]"

fun Uint16 :: "byte list \<Rightarrow> uint16 option" where
  "Uint16 (b0 # b1 # _) = Some (ucast b1 OR push_bit 8 (ucast b0))"
| "Uint16 _ = None"

text \<open>\<^verbatim>\<open>addPrefix\<close>: a fresh slice of \<open>2 + len(b)\<close> bytes, the length written as
  \<^verbatim>\<open>uint16(len(b))\<close> (the conversion keeps the low 16 bits), then the message.\<close>

definition addPrefix :: "byte list \<Rightarrow> byte list" where
  "addPrefix b = PutUint16 (of_nat (length b)) @ b"

text \<open>
  The first lines of \<^verbatim>\<open>handleQUICStream\<close> (both servers): \<open>n\<close> bytes were read into
  the pooled buffer \<open>b\<close>. A read below the minimum size is ignored; a length prefix that
  differs from \<open>n - 2\<close> panics; otherwise \<^verbatim>\<open>b[2:]\<close>, the whole rest of the buffer,
  goes to the decoder.
\<close>

datatype unframed = Ignored | SizeMismatch nat nat | SliceBounds | Payload "byte list"

definition unframe :: "nat \<Rightarrow> byte list \<Rightarrow> unframed" where
  "unframe n b =
     (if n < minDNSPacketSize then Ignored
      else case Uint16 (take 2 b) of
             None \<Rightarrow> SliceBounds
           | Some msg_len \<Rightarrow>
               if int (unat msg_len) \<noteq> int n - 2 then SizeMismatch (unat msg_len) n
               else Payload (drop 2 b))"


section \<open>The QUIC stream handlers\<close>

text \<open>
  What the handler does to the outside world, in order: lines printed, the session closed
  (\<^verbatim>\<open>session.CloseWithError(0, "")\<close>), the plugin chain called, the stream written or
  closed. The decoder, the chain, the encoder and the stream's \<^verbatim>\<open>Write\<close> are external:
  the handler is given their answers.
\<close>

datatype logline =
    LogBytes "byte list"
  | LogInvalidContent
  | LogNilMsg
  | LogEncoded "byte list"
  | LogWrote nat
  | LogError
  | LogNetError
  | LogStreamError
  | LogTransportError
  | LogApplicationError
  | LogWriteFailure nat nat

datatype event =
    Print logline
  | CloseWithError
  | CallServeDNS Msg
  | StreamWrite "byte list"
  | StreamClose

datatype panic = MessageSizeMismatch nat nat | SliceOutOfRange | StreamWriteFailure | ExitFailure

text \<open>How a call ends: it returns, or it panics. Nothing in these servers recovers a
  panic, so a panic that leaves the stream's goroutine ends the whole process.\<close>

datatype exit = Returned | Panicked panic

text \<open>The dynamic type of a write error, as the type assertions of the SCION server see it.\<close>

record WriteErr =
  asNetError :: bool
  asStreamError :: bool
  asTransportError :: bool
  asApplicationError :: bool

record Env =
  Unpack :: "byte list \<Rightarrow> Msg option"
  ServeDNS :: "Msg \<Rightarrow> Msg option"
  Pack :: "Msg \<Rightarrow> byte list"
  Write :: "byte list \<Rightarrow> nat \<times> WriteErr option"

text \<open>The loop over the options of the OPT record: one \<^verbatim>\<open>CloseWithError\<close> for each
  edns-tcp-keepalive option, and no \<^verbatim>\<open>return\<close>.\<close>

definition keepaliveCheck :: "Msg \<Rightarrow> event list" where
  "keepaliveCheck msg =
     (case Edns0 msg of
        None \<Rightarrow> []
      | Some opt \<Rightarrow>
          concat (map (\<lambda>option. if option = EDNS0TCPKEEPALIVE then [CloseWithError] else []) opt))"

text \<open>\<^verbatim>\<open>ServerQUIC.handleQUICStream\<close>, after \<^verbatim>\<open>n, _ := stream.Read(b)\<close>.\<close>

definition ServerQUIC_handleQUICStream :: "Env \<Rightarrow> nat \<Rightarrow> byte list \<Rightarrow> event list \<times> exit" where
  "ServerQUIC_handleQUICStream env n b =
     (case unframe n b of
        Ignored \<Rightarrow> ([], Returned)
      | SliceBounds \<Rightarrow> ([], Panicked SliceOutOfRange)
      | SizeMismatch msg_len m \<Rightarrow> ([], Panicked (MessageSizeMismatch msg_len m))
      | Payload p \<Rightarrow>
          (case Unpack env p of
             None \<Rightarrow> ([Print (LogBytes (take n b)), Print LogInvalidContent], Returned)
           | Some msg \<Rightarrow>
               (let evs = keepaliveCheck msg @ [CallServeDNS msg] in
                case ServeDNS env msg of
                  None \<Rightarrow> (evs @ [Print LogNilMsg, StreamClose], Returned)
                | Some resp \<Rightarrow>
                    (let buf = Pack env resp;
                         evs = evs @ [Print (LogEncoded buf), StreamWrite (addPrefix buf)]
                     in case Write env (addPrefix buf) of
                          (k, None) \<Rightarrow> (evs, Returned)
                        | (k, Some e) \<Rightarrow>
                            if k \<noteq> length buf
                            then (evs @ [Print LogError], Panicked StreamWriteFailure)
                            else (evs @ [Print LogError], Returned)))))"

text \<open>The lines the SCION server prints for a write error, one per type assertion that holds.\<close>

definition writeErrLog :: "WriteErr \<Rightarrow> event list" where
  "writeErrLog e =
     [Print LogError]
     @ (if asNetError e then [Print LogNetError] else [])
     @ (if asStreamError e then [Print LogStreamError] else [])
     @ (if asTransportError e then [Print LogTransportError] else [])
     @ (if asApplicationError e then [Print LogApplicationError] else [])"

text \<open>\<^verbatim>\<open>ServerSQUIC.handleQUICStream\<close>: the same handler, with its own printing.\<close>

definition ServerSQUIC_handleQUICStream :: "Env \<Rightarrow> nat \<Rightarrow> byte list \<Rightarrow> event list \<times> exit" where
  "ServerSQUIC_handleQUICStream env n b =
     (case unframe n b of
        Ignored \<Rightarrow> ([], Returned)
      | SliceBounds \<Rightarrow> ([], Panicked SliceOutOfRange)
      | SizeMismatch msg_len m \<Rightarrow> ([], Panicked (MessageSizeMismatch msg_len m))
      | Payload p \<Rightarrow>
          (case Unpack env p of
             None \<Rightarrow> ([Print (LogBytes (take n b)), Print LogInvalidContent], Returned)
           | Some msg \<Rightarrow>
               (let evs = keepaliveCheck msg @ [CallServeDNS msg] in
                case ServeDNS env msg of
                  None \<Rightarrow> (evs @ [Print LogNilMsg, StreamClose], Returned)
                | Some response \<Rightarrow>
                    (let buf = Pack env response;
                         evs = evs @ [StreamWrite (addPrefix buf), Print (LogWrote (length buf + 2))]
                     in case Write env (addPrefix buf) of
                          (k, None) \<Rightarrow> (evs, Returned)
                        | (k, Some e) \<Rightarrow>
                            if k \<noteq> length buf
                            then (evs @ writeErrLog e @ [Print (LogWriteFailure (length buf) k)],
                                  Panicked ExitFailure)
                            else (evs @ writeErrLog e, Returned)))))"

text \<open>
  The goroutine \<^verbatim>\<open>handleQUICSession\<close> starts for each accepted stream: the handler, then
  \<^verbatim>\<open>stream.Close()\<close>. The close is not deferred and there is no \<^verbatim>\<open>recover\<close>: a panic
  of the handler leaves the goroutine as it is.
\<close>

definition streamWorker :: "event list \<times> exit \<Rightarrow> event list \<times> exit" where
  "streamWorker handled =
     (case handled of
        (evs, Returned) \<Rightarrow> (evs @ [StreamClose], Returned)
      | (evs, Panicked p) \<Rightarrow> (evs, Panicked p))"

section \<open>Dial timeouts (plugin/pkg/proxy)\<close>

text \<open>
  \<^verbatim>\<open>time.Duration\<close> and the average are \<^verbatim>\<open>int64\<close> nanoseconds: an arithmetic result
  is reduced into the 64-bit two's-complement range, and \<^verbatim>\<open>/\<close> truncates towards zero.
\<close>

definition wrap64 :: "int \<Rightarrow> int" where
  "wrap64 x = (x + 2 ^ 63) mod 2 ^ 64 - 2 ^ 63"

definition quot :: "int \<Rightarrow> int \<Rightarrow> int" where
  "quot a b = wrap64 (sgn a * sgn b * (\<bar>a\<bar> div \<bar>b\<bar>))"

definition limitTimeout :: "int \<Rightarrow> int \<Rightarrow> int \<Rightarrow> int" where
  "limitTimeout currentAvg minValue maxValue =
     (let rt = currentAvg in
      if rt < minValue then minValue
      else if rt < quot maxValue 2 then wrap64 (2 * rt)
      else maxValue)"

text \<open>\<^verbatim>\<open>averageTimeout\<close> returns the new value of \<^verbatim>\<open>*currentAvg\<close>.\<close>

definition averageTimeout :: "int \<Rightarrow> int \<Rightarrow> int \<Rightarrow> int" where
  "averageTimeout currentAvg observedDuration weight =
     (let dt = currentAvg in
      wrap64 (currentAvg + quot (wrap64 (observedDuration - dt)) weight))"

definition cumulativeAvgWeight :: int where
  "cumulativeAvgWeight = 4"

text \<open>The transport of one upstream: whether \<^verbatim>\<open>tlsConfig\<close> is set, and the average dial
  time. The constants \<^verbatim>\<open>minDialTimeout\<close> and \<^verbatim>\<open>maxDialTimeout\<close> of the package are
  declared in another file: they are fields here.\<close>

record Transport =
  tlsConfig :: bool
  avgDialTime :: int
  minDialTimeout :: int
  maxDialTimeout :: int

definition dialTimeout :: "Transport \<Rightarrow> int" where
  "dialTimeout t = limitTimeout (avgDialTime t) (minDialTimeout t) (maxDialTimeout t)"

definition updateDialTimeout :: "Transport \<Rightarrow> int \<Rightarrow> Transport" where
  "updateDialTimeout t newDialTime =
     t\<lparr>avgDialTime := averageTimeout (avgDialTime t) newDialTime cumulativeAvgWeight\<rparr>"

text \<open>The dial time observed again and again: the average after \<open>k\<close> dials that each took
  \<open>newDialTime\<close>.\<close>

fun observe :: "nat \<Rightarrow> Transport \<Rightarrow> int \<Rightarrow> Transport" where
  "observe 0 t newDialTime = t"
| "observe (Suc k) t newDialTime = observe k (updateDialTimeout t newDialTime) newDialTime"

section \<open>The query relay (plugin/pkg/proxy)\<close>

text \<open>
  Errors as the relay tells them apart: \<^verbatim>\<open>io.EOF\<close>; an error that implements
  \<^verbatim>\<open>net.Error\<close> (a timeout, a \<^verbatim>\<open>net.OpError\<close>); any other error; and the package's
  own \<^verbatim>\<open>ErrCachedClosed\<close> (declared in another file of the package, a value of its
  own). \<^verbatim>\<open>io.EOF\<close> does not implement \<^verbatim>\<open>net.Error\<close>.
\<close>

datatype error = EOF | NetError nat | OtherError nat | ErrCachedClosed

fun isNetError :: "error \<Rightarrow> bool" where
  "isNetError (NetError _) = True"
| "isNetError _ = False"

text \<open>\<^verbatim>\<open>pc.c.ReadMsg()\<close> answers a message and no error, or an error with or without a
  message (a message that did not unpack is still handed out).\<close>

datatype ReadResult = ReadOk Msg | ReadErr "Msg option" error

text \<open>
  A connection to the upstream, with what the upstream will do on it: the answer to
  \<^verbatim>\<open>WriteMsg\<close> and the answers to the successive \<^verbatim>\<open>ReadMsg\<close> calls.
\<close>

record persistConn =
  UDPSize :: uint16
  closed :: bool
  WriteMsg :: "Msg \<Rightarrow> error option"
  ReadMsg :: "ReadResult list"

record Options =
  ForceTCP :: bool
  PreferUDP :: bool

text \<open>\<^verbatim>\<open>request.Request\<close>: the client's message, \<^verbatim>\<open>state.Proto()\<close> and
  \<^verbatim>\<open>state.Size()\<close>.\<close>

record Request =
  Req :: Msg
  Proto :: string
  Size :: int

record URL =
  Scheme :: string

text \<open>
  What is outside the relay: whether \<^verbatim>\<open>pan.ParseUDPAddr\<close> accepts an address, the result
  of \<^verbatim>\<open>url.Parse\<close>, the connection the transport's manager hands back for a protocol
  (\<^verbatim>\<open>nil\<close> on a miss), the result of dialing with a protocol and a timeout, the time the
  dial took, and the ID \<^verbatim>\<open>dns.Id()\<close> draws.
\<close>

record World =
  ParseUDPAddr :: "string \<Rightarrow> bool"
  url_Parse :: "string \<Rightarrow> error + URL"
  cached_conn :: "string \<Rightarrow> persistConn option"
  DialTimeout :: "string \<Rightarrow> int \<Rightarrow> error + persistConn"
  dial_time :: int
  dns_Id :: uint16

record Proxy =
  addr :: string
  transport :: Transport

text \<open>\<^verbatim>\<open>Transport.Dial\<close>: the connection, whether it came from the cache, or the error;
  and the transport with its average updated after a dial.\<close>

definition Dial :: "World \<Rightarrow> Transport \<Rightarrow> string \<Rightarrow> (error + persistConn \<times> bool) \<times> Transport" where
  "Dial w t proto0 =
     (let proto = (if tlsConfig t then ''tcp-tls'' else proto0) in
      case cached_conn w proto of
        Some pc \<Rightarrow> (Inr (pc, True), t)
      | None \<Rightarrow>
          (let timeout = dialTimeout t;
               t' = updateDialTimeout t (dial_time w)
           in case DialTimeout w proto timeout of
                Inl err \<Rightarrow> (Inl err, t')
              | Inr conn \<Rightarrow> (Inr (conn, False), t')))"

text \<open>Lines 82 to 110 of \<^verbatim>\<open>Connect\<close>: the protocol handed to \<^verbatim>\<open>Dial\<close>.
  \<^verbatim>\<open>p.Addr()\<close> is the field \<^verbatim>\<open>p.addr\<close>.\<close>

definition resolveProto :: "World \<Rightarrow> Proxy \<Rightarrow> Request \<Rightarrow> Options \<Rightarrow> string" where
  "resolveProto w p state opts =
     (let proto = (if ForceTCP opts then ''tcp''
                   else if PreferUDP opts then ''udp''
                   else Proto state)
      in if ParseUDPAddr w (addr p) then proto
         else case url_Parse w (addr p) of
                Inr proxy_proto \<Rightarrow> Scheme proxy_proto
              | Inl err \<Rightarrow> ''udp'')"

text \<open>
  The read loop of \<^verbatim>\<open>Connect\<close>, over the answers still to come: \<open>Inl\<close> is the
  \<^verbatim>\<open>return ret, err\<close> inside the loop, \<open>Inr\<close> the \<^verbatim>\<open>break\<close>. With no answer left the
  loop is still reading: \<open>None\<close>.
\<close>

fun readLoop :: "string \<Rightarrow> bool \<Rightarrow> uint16 \<Rightarrow> uint16 \<Rightarrow> ReadResult list
    \<Rightarrow> ((Msg option \<times> error) + Msg) option" where
  "readLoop proto cached reqId originId [] = None"
| "readLoop proto cached reqId originId (ReadErr ret err # rs) =
     (if proto = ''udp'' \<and> \<not> isNetError err then readLoop proto cached reqId originId rs
      else if err = EOF \<and> cached then Some (Inl (None, ErrCachedClosed))
      else Some (Inl (map_option (\<lambda>m. m\<lparr>MsgId := originId\<rparr>) ret, err)))"
| "readLoop proto cached reqId originId (ReadOk ret # rs) =
     (if reqId = MsgId ret then Some (Inr ret)
      else readLoop proto cached reqId originId rs)"

text \<open>
  Deadlines and metrics have no part in the result and are left out.
  What \<^verbatim>\<open>Connect\<close> leaves behind: the pair it returns, the caller's request once the
  deferred function has run, the connection (if one was obtained), whether it was yielded
  to the transport, and the transport.
\<close>

record Result =
  ret :: "Msg option"
  err :: "error option"
  request :: Msg
  conn :: "persistConn option"
  yielded :: bool
  transport' :: Transport

definition Connect :: "World \<Rightarrow> Proxy \<Rightarrow> Request \<Rightarrow> Options \<Rightarrow> Result option" where
  "Connect w p state opts =
     (let proto = resolveProto w p state opts in
      case Dial w (transport p) proto of
        (Inl e, t) \<Rightarrow>
          Some \<lparr>ret = None, err = Some e, request = Req state, conn = None,
                yielded = False, transport' = t\<rparr>
      | (Inr (pc0, cached), t) \<Rightarrow>
          (let size = (of_int (Size state) :: uint16);
               pc = pc0\<lparr>UDPSize := (if size < 512 then 512 else size)\<rparr>;
               originId = MsgId (Req state);
               req = (Req state)\<lparr>MsgId := dns_Id w\<rparr>
           in case WriteMsg pc req of
                Some e \<Rightarrow>
                  Some \<lparr>ret = None,
                        err = Some (if e = EOF \<and> cached then ErrCachedClosed else e),
                        request = req\<lparr>MsgId := originId\<rparr>,
                        conn = Some (pc\<lparr>closed := True\<rparr>),
                        yielded = False, transport' = t\<rparr>
              | None \<Rightarrow>
                  (case readLoop proto cached (MsgId req) originId (ReadMsg pc) of
                     None \<Rightarrow> None
                   | Some (Inl (r, e)) \<Rightarrow>
                       Some \<lparr>ret = r, err = Some e,
                             request = req\<lparr>MsgId := originId\<rparr>,
                             conn = Some (pc\<lparr>closed := True\<rparr>),
                             yielded = False, transport' = t\<rparr>
                   | Some (Inr r) \<Rightarrow>
                       Some \<lparr>ret = Some (r\<lparr>MsgId := originId\<rparr>), err = None,
                             request = req\<lparr>MsgId := originId\<rparr>,
                             conn = Some pc,
                             yielded = True, transport' = t\<rparr>)))"

section \<open>Concrete inputs\<close>

text \<open>
  Two queries as they travel on a stream. \<open>plain_wire\<close> is a query for the NS records of
  the root: a 12-byte header and a 5-byte question. \<open>keepalive_wire\<close> is the same query
  with an OPT record that holds one edns-tcp-keepalive option (code 11, empty).
\<close>

definition plain_wire :: "byte list" where
  "plain_wire = [0, 7, 1, 0, 0, 1, 0, 0, 0, 0, 0, 0] @ [0, 0, 2, 0, 1]"

definition plain_query :: Msg where
  "plain_query = \<lparr>MsgId = 7, Rcode = 0, Edns0 = None, Body = [0, 0, 2, 0, 1]\<rparr>"

definition keepalive_wire :: "byte list" where
  "keepalive_wire = [0, 7, 1, 0, 0, 1, 0, 0, 0, 0, 0, 1] @ [0, 0, 2, 0, 1]
     @ [0, 0, 41, 16, 0, 0, 0, 0, 0, 0, 4, 0, 11, 0, 0]"

definition keepalive_query :: Msg where
  "keepalive_query =
     \<lparr>MsgId = 7, Rcode = 0, Edns0 = Some [EDNS0TCPKEEPALIVE], Body = [0, 0, 2, 0, 1]\<rparr>"

text \<open>A plugin chain that refuses every query, and the refusal on the wire.\<close>

definition refused :: "Msg \<Rightarrow> Msg" where
  "refused m = m\<lparr>Rcode := 5\<rparr>"

definition refused_wire :: "byte list" where
  "refused_wire = [0, 7, 129, 5, 0, 1, 0, 0, 0, 0, 0, 0] @ [0, 0, 2, 0, 1]"


text \<open>A server whose decoder knows the two queries, with the stream's \<^verbatim>\<open>Write\<close> left open.\<close>

definition server_env :: "(byte list \<Rightarrow> nat \<times> WriteErr option) \<Rightarrow> Env" where
  "server_env wr =
     \<lparr>Unpack = (\<lambda>p. if take 32 p = keepalive_wire then Some keepalive_query
                     else if take 17 p = plain_wire then Some plain_query else None),
      ServeDNS = (\<lambda>m. Some (refused m)),
      Pack = (\<lambda>m. refused_wire),
      Write = wr\<rparr>"

text \<open>A server where nothing decodes.\<close>

definition deaf_env :: Env where
  "deaf_env = \<lparr>Unpack = (\<lambda>_. None), ServeDNS = (\<lambda>_. None), Pack = (\<lambda>_. []),
     Write = (\<lambda>_. (0, None))\<rparr>"

text \<open>A fresh buffer of the pool after a read of \<open>frame\<close>: the frame, then zeros.\<close>

definition pooled :: "byte list \<Rightarrow> byte list" where
  "pooled frame = frame @ replicate (MaxMsgSize - length frame) 0"

text \<open>An upstream reply that carries the ID the relay sent (\<open>0x1234\<close>), and one that does not.\<close>

definition upstream_reply :: Msg where
  "upstream_reply = \<lparr>MsgId = 0x1234, Rcode = 0, Edns0 = None, Body = [0, 0, 2, 0, 1]\<rparr>"

definition spoofed_reply :: Msg where
  "spoofed_reply = \<lparr>MsgId = 0x4321, Rcode = 3, Edns0 = None, Body = [0, 0, 2, 0, 1]\<rparr>"

text \<open>A client that sent the plain query (ID 7) over UDP with a 1232-byte buffer.\<close>

definition client_state :: Request where
  "client_state = \<lparr>Req = plain_query, Proto = ''udp'', Size = 1232\<rparr>"

text \<open>A connection with a fixed answer to every write and a script of read answers.\<close>

definition scripted_conn :: "error option \<Rightarrow> ReadResult list \<Rightarrow> persistConn" where
  "scripted_conn wr rs = \<lparr>UDPSize = 0, closed = False, WriteMsg = (\<lambda>_. wr), ReadMsg = rs\<rparr>"

text \<open>
  A world in which the upstream address is not a SCION address, \<^verbatim>\<open>url.Parse\<close> answers
  \<open>u\<close>, the cache answers \<open>c\<close>, a dial answers \<open>d\<close> after two seconds, and
  \<^verbatim>\<open>dns.Id()\<close> draws \<open>0x1234\<close>.
\<close>

definition upstream_world :: "(error + URL) \<Rightarrow> persistConn option \<Rightarrow> (error + persistConn) \<Rightarrow> World" where
  "upstream_world u c d =
     \<lparr>ParseUDPAddr = (\<lambda>_. False), url_Parse = (\<lambda>_. u), cached_conn = (\<lambda>_. c),
      DialTimeout = (\<lambda>_ _. d), dial_time = 2000000000, dns_Id = 0x1234\<rparr>"

text \<open>A transport without TLS: floor one second, ceiling thirty, the average at fifteen.\<close>

definition std_transport :: Transport where
  "std_transport = \<lparr>tlsConfig = False, avgDialTime = 15000000000,
     minDialTimeout = 1000000000, maxDialTimeout = 30000000000\<rparr>"

definition forwarder :: "string \<Rightarrow> Proxy" where
  "forwarder a = \<lparr>addr = a, transport = std_transport\<rparr>"

definition no_opts :: Options where
  "no_opts = \<lparr>ForceTCP = False, PreferUDP = False\<rparr>"

text \<open>The same transport with a TLS configuration, and a forwarder that uses it.\<close>

definition tls_transport :: Transport where
  "tls_transport = std_transport\<lparr>tlsConfig := True\<rparr>"

definition tls_forwarder :: "string \<Rightarrow> Proxy" where
  "tls_forwarder a = \<lparr>addr = a, transport = tls_transport\<rparr>"

section \<open>Framing\<close>

lemma be16:
  "ucast (ucast v :: byte) OR push_bit 8 (ucast (ucast (drop_bit 8 v) :: byte)) = (v :: uint16)"
  by (rule bit_word_eqI) (auto simp add: bit_simps)

lemma Uint16_PutUint16: "Uint16 (PutUint16 v @ rest) = Some v"
  by (simp add: PutUint16_def be16)

lemma addPrefix_length: "length (addPrefix b) = length b + 2"
  by (simp add: addPrefix_def PutUint16_def)

lemma unframe_Cons:
  "unframe n (b0 # b1 # rest) =
     (if n < 17 then Ignored
      else if int (unat (ucast b1 OR push_bit 8 (ucast b0) :: uint16)) \<noteq> int n - 2
           then SizeMismatch (unat (ucast b1 OR push_bit 8 (ucast b0) :: uint16)) n
           else Payload rest)"
  by (simp add: unframe_def minDNSPacketSize_def)

text \<open>What unframing makes of a frame that was read whole into a buffer.\<close>

lemma unframe_addPrefix:
  "unframe (length (addPrefix P)) (addPrefix P @ rest) =
     (if length P < 15 then Ignored
      else if length P mod 65536 \<noteq> length P
           then SizeMismatch (length P mod 65536) (length P + 2)
           else Payload (P @ rest))"
  by (simp add: addPrefix_def PutUint16_def unframe_Cons be16 unat_of_nat)

lemma unframe_pooled:
  "unframe (length (addPrefix P)) (pooled (addPrefix P)) =
     (if length P < 15 then Ignored
      else if length P mod 65536 \<noteq> length P
           then SizeMismatch (length P mod 65536) (length P + 2)
           else Payload (P @ replicate (MaxMsgSize - length (addPrefix P)) 0))"
  unfolding pooled_def by (rule unframe_addPrefix)

lemma zero_buffer: "replicate MaxMsgSize x = x # x # replicate 65533 x"
proof -
  have "MaxMsgSize = Suc (Suc 65533)" by (simp add: MaxMsgSize_def)
  moreover have "replicate (Suc (Suc 65533)) x = x # x # replicate 65533 x"
    by (simp only: replicate_Suc)
  ultimately show ?thesis by (simp only:)
qed

text \<open>
  C4, as stated, fails: the frame of the empty payload is two bytes long, below the
  minimum size of 17, and the handler ignores the read instead of handing out the payload.
\<close>

theorem roundtrip_empty_payload_ignored:
  "unframe (length (addPrefix [])) (pooled (addPrefix [])) = Ignored"
  by (simp add: unframe_pooled)

text \<open>
  C4, amended: a payload of at least 15 bytes whose frame fills the first bytes of the
  65535-byte buffer passes both checks (minimum size, declared length against the bytes
  read), and the slice handed to the decoder is the payload followed by the rest of the
  buffer.
\<close>

theorem roundtrip:
  assumes "15 \<le> length P" and "length (addPrefix P @ rest) = MaxMsgSize"
  shows "unframe (length (addPrefix P)) (addPrefix P @ rest) = Payload (P @ rest)"
proof -
  have "length P < 65536"
    using assms(2) by (simp add: addPrefix_length MaxMsgSize_def)
  then show ?thesis
    using assms(1) by (simp only: unframe_addPrefix) simp
qed

theorem roundtrip_witness:
  "unframe 19 (addPrefix plain_wire @ replicate 65516 0) = Payload (plain_wire @ replicate 65516 0)"
proof -
  have len: "length plain_wire = 17" by (simp add: plain_wire_def)
  show ?thesis
    using roundtrip [of plain_wire "replicate 65516 0"]
    by (simp only: addPrefix_length MaxMsgSize_def length_append length_replicate len) simp
qed

section \<open>The stream handlers\<close>

lemma QUIC_answered:
  assumes "unframe n b = Payload p" and "Unpack env p = Some msg"
    and "ServeDNS env msg = Some resp" and "Write env (addPrefix (Pack env resp)) = (k, w)"
  shows "ServerQUIC_handleQUICStream env n b =
     (keepaliveCheck msg @ [CallServeDNS msg, Print (LogEncoded (Pack env resp)),
        StreamWrite (addPrefix (Pack env resp))] @ (if w = None then [] else [Print LogError]),
      if w \<noteq> None \<and> k \<noteq> length (Pack env resp) then Panicked StreamWriteFailure
      else Returned)"
  using assms by (cases w) (simp_all add: ServerQUIC_handleQUICStream_def Let_def)


lemma server_env_sel:
  "ServeDNS (server_env wr) m = Some (refused m)"
  "Pack (server_env wr) m = refused_wire"
  "Write (server_env wr) = wr"
  by (simp_all add: server_env_def)

lemma len_keepalive: "length keepalive_wire = 32"
  by (simp add: keepalive_wire_def)


lemma unframe_keepalive:
  "unframe 34 (pooled (addPrefix keepalive_wire)) = Payload (keepalive_wire @ replicate 65501 0)"
  using unframe_pooled [of keepalive_wire]
  by (simp add: len_keepalive addPrefix_length MaxMsgSize_def)


lemma Unpack_keepalive: "Unpack (server_env wr) (keepalive_wire @ rest) = Some keepalive_query"
  by (simp add: server_env_def len_keepalive)


text \<open>
  C1, the code at the failing input: a 34-byte read that holds the framed keepalive query.
  The handler closes the session and goes on: it calls the plugin chain with the query and
  writes the framed response to the stream, whatever that write answers.
\<close>

theorem keepalive_query_still_served:
  "fst (ServerQUIC_handleQUICStream (server_env wr) 34 (pooled (addPrefix keepalive_wire))) =
     [CloseWithError, CallServeDNS keepalive_query, Print (LogEncoded refused_wire),
      StreamWrite (addPrefix refused_wire)]
     @ (if snd (wr (addPrefix refused_wire)) = None then [] else [Print LogError])"
  using QUIC_answered [OF unframe_keepalive Unpack_keepalive server_env_sel(1),
      of wr "fst (wr (addPrefix refused_wire))" "snd (wr (addPrefix refused_wire))"]
  by (simp add: server_env_sel keepaliveCheck_def keepalive_query_def)

text \<open>
  C2, as stated, fails: a client sends 17 zero bytes. The prefix says 0, 15 bytes follow,
  and the stream's goroutine ends in a panic instead of returning.
\<close>

theorem size_mismatch_zero_bytes_panics:
  "streamWorker (ServerQUIC_handleQUICStream deaf_env 17 (replicate MaxMsgSize 0)) =
     ([], Panicked (MessageSizeMismatch 0 17))"
  by (simp add: streamWorker_def ServerQUIC_handleQUICStream_def unframe_Cons zero_buffer)

text \<open>
  C2, amended: in both servers, a read of at least 17 bytes whose length prefix differs
  from the bytes read minus 2 makes the handler panic before anything else happens (no
  decoding, no call of the chain, no response, no closing of the session), and the panic
  leaves the stream's goroutine unrecovered; a read of fewer than 17 bytes is dropped
  silently, whatever its prefix.
\<close>

theorem size_mismatch_panics:
  "(n < minDNSPacketSize \<longrightarrow>
      ServerQUIC_handleQUICStream env n b = ([], Returned) \<and>
      ServerSQUIC_handleQUICStream env n b = ([], Returned)) \<and>
   (minDNSPacketSize \<le> n \<and> Uint16 (take 2 b) = Some msg_len \<and> unat msg_len \<noteq> n - 2 \<longrightarrow>
      streamWorker (ServerQUIC_handleQUICStream env n b) =
        ([], Panicked (MessageSizeMismatch (unat msg_len) n)) \<and>
      streamWorker (ServerSQUIC_handleQUICStream env n b) =
        ([], Panicked (MessageSizeMismatch (unat msg_len) n)))"
proof -
  have 1: "unframe n b = Ignored" if "n < minDNSPacketSize"
    using that by (simp add: unframe_def)
  have 2: "unframe n b = SizeMismatch (unat msg_len) n"
    if "minDNSPacketSize \<le> n" "Uint16 (take 2 b) = Some msg_len" "unat msg_len \<noteq> n - 2"
  proof -
    have "2 \<le> n" using that(1) by (simp add: minDNSPacketSize_def)
    then have "int (unat msg_len) \<noteq> int n - 2" using that(3) by linarith
    then show ?thesis using that(1,2) by (simp add: unframe_def)
  qed
  show ?thesis
    using 1 2
    by (simp add: ServerQUIC_handleQUICStream_def ServerSQUIC_handleQUICStream_def
        streamWorker_def)
qed

theorem size_mismatch_panics_witness:
  "streamWorker (ServerSQUIC_handleQUICStream deaf_env 17 (replicate MaxMsgSize 0)) =
     ([], Panicked (MessageSizeMismatch 0 17))
   \<and> ServerQUIC_handleQUICStream deaf_env 16 (replicate MaxMsgSize 0) = ([], Returned)"
  using size_mismatch_panics [of 17 deaf_env "replicate MaxMsgSize 0" 0]
    size_mismatch_panics [of 16 deaf_env "replicate MaxMsgSize 0" 0]
  by (simp add: minDNSPacketSize_def zero_buffer)




section \<open>The query relay\<close>

lemma readLoop_Inl_id:
  "readLoop proto cached reqId originId rs = Some (Inl (Some m, e)) \<Longrightarrow> MsgId m = originId"
  by (induction proto cached reqId originId rs rule: readLoop.induct) (auto split: if_splits)

text \<open>Replies with another ID are read and dropped: the loop goes on with the next answer.\<close>

lemma readLoop_spoofs:
  assumes "\<forall>s\<in>set spoofs. MsgId s \<noteq> reqId"
  shows "readLoop proto cached reqId originId (map ReadOk spoofs @ rs) =
         readLoop proto cached reqId originId rs"
  using assms by (induction spoofs) auto

lemma world_sel:
  "ParseUDPAddr (upstream_world u c d) a = False"
  "url_Parse (upstream_world u c d) a = u"
  "cached_conn (upstream_world u c d) q = c"
  "DialTimeout (upstream_world u c d) q n = d"
  "dns_Id (upstream_world u c d) = 0x1234"
  "dial_time (upstream_world u c d) = 2000000000"
  by (simp_all add: upstream_world_def)

lemma resolve_udp: "resolveProto (upstream_world (Inl e) c d) p state opts = ''udp''"
  by (simp add: resolveProto_def world_sel)

lemma resolve_scheme:
  "resolveProto (upstream_world (Inr \<lparr>Scheme = s\<rparr>) c d) p state opts = s"
  by (simp add: resolveProto_def world_sel)

lemma Dial_cached:
  "Dial (upstream_world u (Some pc) d) (transport (forwarder a)) q =
     (Inr (pc, True), std_transport)"
  by (simp add: Dial_def world_sel forwarder_def)

lemma Dial_fresh:
  "Dial (upstream_world u None (Inr pc)) (transport (forwarder a)) q =
     (Inr (pc, False), updateDialTimeout std_transport 2000000000)"
  by (simp add: Dial_def world_sel forwarder_def Let_def)

text \<open>
  C5: whenever \<open>Connect\<close> returns a message, with or without an error, the message carries
  the ID the client's request had on entry.
\<close>

theorem id_restoration:
  assumes "Connect w p state opts = Some r" and "ret r = Some m"
  shows "MsgId m = MsgId (Req state)"
  using assms
  by (auto simp add: Connect_def Let_def split: prod.splits sum.splits option.splits
      dest: readLoop_Inl_id)

theorem id_restoration_witness:
  "\<exists>r. Connect (upstream_world (Inl (OtherError 0))
          (Some (scripted_conn None [ReadOk upstream_reply])) (Inl (OtherError 1)))
        (forwarder ''8.8.8.8:53'') client_state no_opts = Some r
     \<and> ret r = Some (upstream_reply\<lparr>MsgId := 7\<rparr>)
     \<and> MsgId (upstream_reply\<lparr>MsgId := 7\<rparr>) = MsgId (Req client_state)"
proof -
  let ?w = "upstream_world (Inl (OtherError 0))
      (Some (scripted_conn None [ReadOk upstream_reply])) (Inl (OtherError 1))"
  have c: "Connect ?w (forwarder ''8.8.8.8:53'') client_state no_opts =
      Some \<lparr>ret = Some (upstream_reply\<lparr>MsgId := 7\<rparr>), err = None, request = plain_query,
            conn = Some (scripted_conn None [ReadOk upstream_reply]\<lparr>UDPSize := 1232\<rparr>),
            yielded = True, transport' = std_transport\<rparr>"
    by (simp add: Connect_def resolve_udp Dial_cached Let_def world_sel)
       (simp add: scripted_conn_def client_state_def upstream_reply_def plain_query_def)
  show ?thesis
    using id_restoration [OF c, of "upstream_reply\<lparr>MsgId := 7\<rparr>"] c by simp
qed

text \<open>
  C6: on a connection that was obtained and written to without error, any number of
  replies with an ID other than the generated one (so also one or more), followed by a
  reply with the generated ID, make \<open>Connect\<close> return that reply (its ID restored) with no
  error; the connection is yielded to the transport and has not been closed.
\<close>

theorem spoof_rejection:
  assumes "Dial w (transport p) (resolveProto w p state opts) = (Inr (pc, cached), t)"
    and "WriteMsg pc ((Req state)\<lparr>MsgId := dns_Id w\<rparr>) = None"
    and "ReadMsg pc = map ReadOk spoofs @ ReadOk m # rest"
    and "\<forall>s\<in>set spoofs. MsgId s \<noteq> dns_Id w"
    and "MsgId m = dns_Id w"
  shows "\<exists>r. Connect w p state opts = Some r
     \<and> ret r = Some (m\<lparr>MsgId := MsgId (Req state)\<rparr>)
     \<and> err r = None \<and> yielded r \<and> map_option closed (conn r) = Some (closed pc)"
  using assms by (simp add: Connect_def Let_def readLoop_spoofs)

theorem spoof_rejection_witness:
  "\<exists>r. Connect (upstream_world (Inl (OtherError 0))
          (Some (scripted_conn None
             [ReadOk spoofed_reply, ReadOk spoofed_reply, ReadOk upstream_reply]))
          (Inl (OtherError 1)))
        (forwarder ''8.8.8.8:53'') client_state no_opts = Some r
     \<and> ret r = Some (upstream_reply\<lparr>MsgId := 7\<rparr>) \<and> err r = None \<and> yielded r
     \<and> map_option closed (conn r) = Some False"
  using spoof_rejection [of
      "upstream_world (Inl (OtherError 0))
          (Some (scripted_conn None
             [ReadOk spoofed_reply, ReadOk spoofed_reply, ReadOk upstream_reply]))
          (Inl (OtherError 1))"
      "forwarder ''8.8.8.8:53''" client_state no_opts
      "scripted_conn None [ReadOk spoofed_reply, ReadOk spoofed_reply, ReadOk upstream_reply]"
      True std_transport "[spoofed_reply, spoofed_reply]" upstream_reply "[]"]
  by (simp add: resolve_udp Dial_cached world_sel)
     (simp add: scripted_conn_def spoofed_reply_def upstream_reply_def client_state_def
        plain_query_def)

text \<open>
  Under the protocol \<open>udp\<close> the loop drops every read that fails with \<^verbatim>\<open>io.EOF\<close>, with
  or without a message, and goes on with the next answer.
\<close>

lemma readLoop_udp_EOF:
  "readLoop ''udp'' cached reqId originId (map (\<lambda>r. ReadErr r EOF) rets @ rs) =
   readLoop ''udp'' cached reqId originId rs"
  by (induction rets) simp_all

lemma readLoop_udp_only_EOF:
  "readLoop ''udp'' cached reqId originId (replicate n (ReadErr None EOF)) = None"
  by (induction n) simp_all

lemma Dial_cached_tls:
  "Dial (upstream_world u (Some pc) d) (transport (tls_forwarder a)) q =
     (Inr (pc, True), tls_transport)"
  by (simp add: Dial_def world_sel tls_forwarder_def)

text \<open>
  C7, the code at the failing input: the transport has a TLS configuration and the
  upstream address \<open>1.1.1.1:853\<close> has no scheme, so \<^verbatim>\<open>url.Parse\<close> fails and the
  protocol of \<open>Connect\<close> is \<open>udp\<close>, while \<open>Dial\<close> on its own switches to \<open>tcp-tls\<close>. The
  connection comes from the cache and the peer has closed it: the write goes through and
  every read answers \<^verbatim>\<open>io.EOF\<close>. However many reads are made, \<open>Connect\<close> has not
  returned: the guard meant for datagrams drops each \<^verbatim>\<open>io.EOF\<close>, the connection is
  not closed, and \<^verbatim>\<open>ErrCachedClosed\<close> is never returned.
\<close>

theorem stale_tls_connection_never_signalled:
  "Connect (upstream_world (Inl (OtherError 0))
        (Some (scripted_conn None (replicate n (ReadErr None EOF)))) (Inl (OtherError 1)))
      (tls_forwarder ''1.1.1.1:853'') client_state no_opts = None"
  by (simp add: Connect_def resolve_udp Dial_cached_tls Let_def world_sel)
     (simp add: scripted_conn_def readLoop_udp_only_EOF)

text \<open>
  On the other paths the translation is made: when the write fails with \<^verbatim>\<open>io.EOF\<close>, or
  when the protocol of \<open>Connect\<close> is not \<open>udp\<close> and a read fails with \<^verbatim>\<open>io.EOF\<close> (after
  any number of replies with another ID), \<open>Connect\<close> returns \<^verbatim>\<open>ErrCachedClosed\<close> if the
  connection came from the cache and the \<^verbatim>\<open>io.EOF\<close> error itself if it was freshly
  dialed; in both cases the connection is closed and not yielded.
\<close>

lemma stale_connection:
  assumes "Dial w (transport p) (resolveProto w p state opts) = (Inr (pc, cached), t)"
  shows
   "(WriteMsg pc ((Req state)\<lparr>MsgId := dns_Id w\<rparr>) = Some EOF \<longrightarrow>
       (\<exists>r. Connect w p state opts = Some r \<and> ret r = None
          \<and> err r = Some (if cached then ErrCachedClosed else EOF)
          \<and> \<not> yielded r \<and> map_option closed (conn r) = Some True)) \<and>
    (WriteMsg pc ((Req state)\<lparr>MsgId := dns_Id w\<rparr>) = None
       \<and> resolveProto w p state opts \<noteq> ''udp''
       \<and> ReadMsg pc = map ReadOk spoofs @ ReadErr rm EOF # rest
       \<and> (\<forall>s\<in>set spoofs. MsgId s \<noteq> dns_Id w) \<longrightarrow>
       (\<exists>r. Connect w p state opts = Some r
          \<and> err r = Some (if cached then ErrCachedClosed else EOF)
          \<and> \<not> yielded r \<and> map_option closed (conn r) = Some True))"
  using assms by (simp add: Connect_def Let_def readLoop_spoofs)

lemma stale_connection_witness:
  "(\<exists>r. Connect (upstream_world (Inr \<lparr>Scheme = ''dns''\<rparr>)
          (Some (scripted_conn None [ReadOk spoofed_reply, ReadErr None EOF]))
          (Inl (OtherError 1)))
        (forwarder ''dns://8.8.8.8:53'') client_state no_opts = Some r
      \<and> err r = Some ErrCachedClosed \<and> \<not> yielded r
      \<and> map_option closed (conn r) = Some True)
   \<and> (\<exists>r. Connect (upstream_world (Inr \<lparr>Scheme = ''dns''\<rparr>) None
          (Inr (scripted_conn (Some EOF) [])))
        (forwarder ''dns://8.8.8.8:53'') client_state no_opts = Some r
      \<and> ret r = None \<and> err r = Some EOF \<and> \<not> yielded r
      \<and> map_option closed (conn r) = Some True)"
proof -
  have "(''dns'' :: string) \<noteq> ''udp''" by simp
  then show ?thesis
  using stale_connection [of
      "upstream_world (Inr \<lparr>Scheme = ''dns''\<rparr>)
          (Some (scripted_conn None [ReadOk spoofed_reply, ReadErr None EOF]))
          (Inl (OtherError 1))"
      "forwarder ''dns://8.8.8.8:53''" client_state no_opts
      "scripted_conn None [ReadOk spoofed_reply, ReadErr None EOF]" True std_transport
      "[spoofed_reply]" None "[]"]
    stale_connection [of
      "upstream_world (Inr \<lparr>Scheme = ''dns''\<rparr>) None (Inr (scripted_conn (Some EOF) []))"
      "forwarder ''dns://8.8.8.8:53''" client_state no_opts
      "scripted_conn (Some EOF) []" False "updateDialTimeout std_transport 2000000000"
      "[]" None "[]"]
  by (simp add: resolve_scheme Dial_cached Dial_fresh world_sel)
     (simp add: scripted_conn_def spoofed_reply_def)
qed

text \<open>
  C9, the code at the failing input: the upstream address \<open>8.8.8.8\<close> is no SCION
  address, and \<^verbatim>\<open>url.Parse\<close> accepts it as a URL with an empty scheme. With
  \<^verbatim>\<open>ForceTCP\<close> set, the protocol handed to \<^verbatim>\<open>Dial\<close> is the empty string: neither the
  default \<open>tcp\<close> nor \<open>udp\<close>.
\<close>

theorem schemeless_address_empty_proto:
  "resolveProto (upstream_world (Inr \<lparr>Scheme = ''''\<rparr>) None (Inl (OtherError 1)))
     (forwarder ''8.8.8.8'') client_state \<lparr>ForceTCP = True, PreferUDP = False\<rparr> = ''''"
  by (simp add: resolve_scheme)

text \<open>
  C10: whenever \<open>Connect\<close> returns, on whichever path, the caller's request is what it
  was on entry: the generated ID is gone from it.
\<close>

theorem request_unchanged:
  assumes "Connect w p state opts = Some r"
  shows "request r = Req state"
  using assms
  by (auto simp add: Connect_def Let_def split: prod.splits sum.splits option.splits)

theorem request_unchanged_witness:
  "(\<exists>r. Connect (upstream_world (Inl (OtherError 0)) None (Inl (NetError 1)))
        (forwarder ''8.8.8.8:53'') client_state no_opts = Some r
      \<and> err r = Some (NetError 1) \<and> request r = plain_query)
   \<and> (\<exists>r. Connect (upstream_world (Inl (OtherError 0)) None
          (Inr (scripted_conn (Some (NetError 2)) [])))
        (forwarder ''8.8.8.8:53'') client_state no_opts = Some r
      \<and> err r = Some (NetError 2) \<and> request r = plain_query)
   \<and> (\<exists>r. Connect (upstream_world (Inl (OtherError 0)) None
          (Inr (scripted_conn None [ReadErr (Some spoofed_reply) (NetError 3)])))
        (forwarder ''8.8.8.8:53'') client_state no_opts = Some r
      \<and> err r = Some (NetError 3) \<and> request r = plain_query)
   \<and> (\<exists>r. Connect (upstream_world (Inl (OtherError 0)) None
          (Inr (scripted_conn None [ReadOk upstream_reply])))
        (forwarder ''8.8.8.8:53'') client_state no_opts = Some r
      \<and> err r = None \<and> request r = plain_query)"
proof -
  let ?p = "forwarder ''8.8.8.8:53''"
  let ?w1 = "upstream_world (Inl (OtherError 0)) None (Inl (NetError 1))"
  let ?w2 = "upstream_world (Inl (OtherError 0)) None
      (Inr (scripted_conn (Some (NetError 2)) []))"
  let ?w3 = "upstream_world (Inl (OtherError 0)) None
      (Inr (scripted_conn None [ReadErr (Some spoofed_reply) (NetError 3)]))"
  let ?w4 = "upstream_world (Inl (OtherError 0)) None
      (Inr (scripted_conn None [ReadOk upstream_reply]))"
  obtain r1 where 1: "Connect ?w1 ?p client_state no_opts = Some r1" "err r1 = Some (NetError 1)"
    by (simp add: Connect_def resolve_udp Dial_def world_sel Let_def)
  obtain r2 where 2: "Connect ?w2 ?p client_state no_opts = Some r2" "err r2 = Some (NetError 2)"
    by (simp add: Connect_def resolve_udp Dial_fresh world_sel Let_def scripted_conn_def)
  obtain r3 where 3: "Connect ?w3 ?p client_state no_opts = Some r3" "err r3 = Some (NetError 3)"
    by (simp add: Connect_def resolve_udp Dial_fresh world_sel Let_def scripted_conn_def)
  obtain r4 where 4: "Connect ?w4 ?p client_state no_opts = Some r4" "err r4 = None"
    by (simp add: Connect_def resolve_udp Dial_fresh world_sel Let_def scripted_conn_def
        upstream_reply_def)
  have q: "Req client_state = plain_query" by (simp add: client_state_def)
  show ?thesis
    using 1 2 3 4 request_unchanged [OF 1(1)] request_unchanged [OF 2(1)]
      request_unchanged [OF 3(1)] request_unchanged [OF 4(1)]
    by (simp add: q)
qed

section \<open>Dial timeouts\<close>

lemma wrap64_id: "- (2 ^ 63) \<le> x \<Longrightarrow> x < 2 ^ 63 \<Longrightarrow> wrap64 x = x"
  by (simp add: wrap64_def)

lemma quot_nonneg: "0 \<le> a \<Longrightarrow> a < 2 ^ 63 \<Longrightarrow> 0 < b \<Longrightarrow> quot a b = a div b"
proof -
  assume a: "0 \<le> a" "a < 2 ^ 63" "0 < b"
  have 1: "0 \<le> a div b" using a by (simp add: pos_imp_zdiv_nonneg_iff)
  have 2: "a div b \<le> a" using a zdiv_mono2 [of a 1 b] by simp
  have 3: "sgn a * sgn b * (\<bar>a\<bar> div \<bar>b\<bar>) = a div b"
    using a by (cases "a = 0") (simp_all add: sgn_if)
  have "wrap64 (a div b) = a div b"
    using 1 2 a by (intro wrap64_id) linarith+
  then show ?thesis by (simp only: quot_def 3)
qed

lemma quot4: "- (2 ^ 63) < a \<Longrightarrow> a < 2 ^ 63 \<Longrightarrow> quot a 4 = sgn a * (\<bar>a\<bar> div 4)"
proof -
  assume a: "- (2 ^ 63) < a" "a < 2 ^ 63"
  have "0 \<le> \<bar>a\<bar> div 4" "\<bar>a\<bar> div 4 \<le> \<bar>a\<bar>" by simp_all
  then have "- (2 ^ 63) \<le> sgn a * (\<bar>a\<bar> div 4)" "sgn a * (\<bar>a\<bar> div 4) < 2 ^ 63"
    using a by (auto simp add: sgn_if)
  then show ?thesis by (simp add: quot_def wrap64_id)
qed

lemma limitTimeout_exact:
  assumes "0 \<le> mn" "0 \<le> mx" "mx < 2 ^ 63"
  shows "limitTimeout avg mn mx =
     (if avg < mn then mn else if avg < mx div 2 then 2 * avg else mx)"
proof -
  have q: "quot mx 2 = mx div 2" using assms by (simp add: quot_nonneg)
  have "wrap64 (2 * avg) = 2 * avg" if "mn \<le> avg" "avg < mx div 2"
    using that assms by (intro wrap64_id) linarith+
  then show ?thesis by (simp add: limitTimeout_def q)
qed

lemma averageTimeout_exact:
  assumes "0 \<le> a" "a < 2 ^ 63" "0 \<le> L" "L < 2 ^ 63"
  shows "averageTimeout a L cumulativeAvgWeight = a + sgn (L - a) * (\<bar>L - a\<bar> div 4)"
proof -
  have d: "wrap64 (L - a) = L - a" using assms by (intro wrap64_id) linarith+
  have q: "quot (L - a) 4 = sgn (L - a) * (\<bar>L - a\<bar> div 4)"
    using assms by (intro quot4) linarith+
  have "\<bar>L - a\<bar> div 4 \<le> \<bar>L - a\<bar>" "0 \<le> \<bar>L - a\<bar> div 4" by simp_all
  then have "0 \<le> a + sgn (L - a) * (\<bar>L - a\<bar> div 4)" "a + sgn (L - a) * (\<bar>L - a\<bar> div 4) < 2 ^ 63"
    using assms by (auto simp add: sgn_if)
  then have "wrap64 (a + sgn (L - a) * (\<bar>L - a\<bar> div 4)) = a + sgn (L - a) * (\<bar>L - a\<bar> div 4)"
    by (intro wrap64_id) linarith+
  then show ?thesis by (simp add: averageTimeout_def cumulativeAvgWeight_def d q)
qed

lemma toward_dist:
  fixes L a :: int
  shows "\<bar>L - (a + sgn (L - a) * (\<bar>L - a\<bar> div 4))\<bar> = \<bar>L - a\<bar> - \<bar>L - a\<bar> div 4"
proof -
  have "\<bar>L - a\<bar> div 4 \<le> \<bar>L - a\<bar>" "0 \<le> \<bar>L - a\<bar> div 4" by simp_all
  then show ?thesis by (auto simp add: sgn_if)
qed


lemma update_sel:
  "minDialTimeout (updateDialTimeout t L) = minDialTimeout t"
  "maxDialTimeout (updateDialTimeout t L) = maxDialTimeout t"
  "avgDialTime (updateDialTimeout t L) = averageTimeout (avgDialTime t) L cumulativeAvgWeight"
  by (simp_all add: updateDialTimeout_def)

lemma observe_sel:
  "minDialTimeout (observe k t L) = minDialTimeout t"
  "maxDialTimeout (observe k t L) = maxDialTimeout t"
  by (induction k arbitrary: t) (simp_all add: update_sel)

lemma step_between:
  fixes L a :: int
  shows "min a L \<le> a + sgn (L - a) * (\<bar>L - a\<bar> div 4)"
    and "a + sgn (L - a) * (\<bar>L - a\<bar> div 4) \<le> max a L"
proof -
  have "\<bar>L - a\<bar> div 4 \<le> \<bar>L - a\<bar>" "0 \<le> \<bar>L - a\<bar> div 4" by simp_all
  then show "min a L \<le> a + sgn (L - a) * (\<bar>L - a\<bar> div 4)"
    and "a + sgn (L - a) * (\<bar>L - a\<bar> div 4) \<le> max a L"
    by (auto simp add: sgn_if)
qed

lemma observe_settled:
  assumes "updateDialTimeout t L = t"
  shows "observe k t L = t"
  using assms by (induction k) simp_all

lemma converge:
  assumes "0 \<le> avgDialTime t" "avgDialTime t < 2 ^ 63" "0 \<le> L" "L < 2 ^ 63"
  shows "\<exists>K. \<forall>k\<ge>K. \<bar>avgDialTime (observe k t L) - L\<bar> \<le> 3"
  using assms
proof (induction "nat \<bar>L - avgDialTime t\<bar>" arbitrary: t rule: less_induct)
  case less
  let ?a = "avgDialTime t"
  let ?a' = "?a + sgn (L - ?a) * (\<bar>L - ?a\<bar> div 4)"
  have upd: "avgDialTime (updateDialTimeout t L) = ?a'"
    using less.prems by (simp add: update_sel averageTimeout_exact)
  show ?case
  proof (cases "\<bar>L - ?a\<bar> \<le> 3")
    case True
    then have "\<bar>L - ?a\<bar> div 4 = 0" by simp
    then have "updateDialTimeout t L = t"
      using less.prems
      by (simp add: updateDialTimeout_def averageTimeout_exact)
    then have "\<forall>k\<ge>0. \<bar>avgDialTime (observe k t L) - L\<bar> \<le> 3"
      using True by (simp add: observe_settled)
    then show ?thesis by blast
  next
    case False
    then have "\<bar>L - ?a\<bar> div 4 \<ge> 1" by simp
    then have "\<bar>L - ?a'\<bar> < \<bar>L - ?a\<bar>"
      by (simp add: toward_dist)
    then have dec: "nat \<bar>L - avgDialTime (updateDialTimeout t L)\<bar> < nat \<bar>L - ?a\<bar>"
      by (simp add: upd)
    have rng: "0 \<le> avgDialTime (updateDialTimeout t L)"
      "avgDialTime (updateDialTimeout t L) < 2 ^ 63"
      using step_between [of ?a L] less.prems by (simp_all add: upd)
    obtain K where K: "\<forall>k\<ge>K. \<bar>avgDialTime (observe k (updateDialTimeout t L) L) - L\<bar> \<le> 3"
      using less.hyps [OF dec rng less.prems(3,4)] by blast
    have "\<forall>k\<ge>Suc K. \<bar>avgDialTime (observe k t L) - L\<bar> \<le> 3"
    proof (intro allI impI)
      fix k assume "Suc K \<le> k"
      then obtain j where j: "k = Suc j" "K \<le> j" by (cases k) simp_all
      then show "\<bar>avgDialTime (observe k t L) - L\<bar> \<le> 3" using K by simp
    qed
    then show ?thesis by blast
  qed
qed

lemma dialTimeout_exact:
  assumes "0 \<le> minDialTimeout t" "0 \<le> maxDialTimeout t" "maxDialTimeout t < 2 ^ 63"
  shows "dialTimeout t =
     (if avgDialTime t < minDialTimeout t then minDialTimeout t
      else if avgDialTime t < maxDialTimeout t div 2 then 2 * avgDialTime t
      else maxDialTimeout t)"
  using assms by (simp only: dialTimeout_def limitTimeout_exact)

text \<open>
  C8, amended. For a floor, a ceiling, an average and an observed dial time that are
  non-negative \<^verbatim>\<open>int64\<close> values: the next dial timeout is the floor when the average
  is below the floor, else twice the average when the average is below half the ceiling,
  else the ceiling; an observation moves the average by a quarter of its distance to the
  observation, the quotient truncated towards zero; under a constant observed time \<open>L\<close>
  the average is, from some dial on, within 3 nanoseconds of \<open>L\<close>, and when \<open>L\<close> is at
  least 3 above the floor and more than 3 below half the ceiling the timeout is then twice
  the average, within 6 of \<open>2 * L\<close>; one observation at or above the ceiling yields the
  ceiling when the average before it was at least half the ceiling and the floor is at
  most half the ceiling.
\<close>

theorem adaptive_dial_timeout:
  assumes "0 \<le> minDialTimeout t" and "0 \<le> maxDialTimeout t" and "maxDialTimeout t < 2 ^ 63"
    and "0 \<le> avgDialTime t" and "avgDialTime t < 2 ^ 63" and "0 \<le> L" and "L < 2 ^ 63"
  shows
   "dialTimeout t =
      (if avgDialTime t < minDialTimeout t then minDialTimeout t
       else if avgDialTime t < maxDialTimeout t div 2 then 2 * avgDialTime t
       else maxDialTimeout t)
    \<and> avgDialTime (updateDialTimeout t L) =
        avgDialTime t + sgn (L - avgDialTime t) * (\<bar>L - avgDialTime t\<bar> div 4)
    \<and> (\<exists>K. \<forall>k\<ge>K. \<bar>avgDialTime (observe k t L) - L\<bar> \<le> 3
          \<and> (minDialTimeout t + 3 \<le> L \<and> L + 3 < maxDialTimeout t div 2 \<longrightarrow>
               dialTimeout (observe k t L) = 2 * avgDialTime (observe k t L)
               \<and> \<bar>dialTimeout (observe k t L) - 2 * L\<bar> \<le> 6))
    \<and> (maxDialTimeout t \<le> L \<and> maxDialTimeout t div 2 \<le> avgDialTime t
          \<and> minDialTimeout t \<le> maxDialTimeout t div 2 \<longrightarrow>
        dialTimeout (updateDialTimeout t L) = maxDialTimeout t)"
proof (intro conjI)
  show "dialTimeout t =
      (if avgDialTime t < minDialTimeout t then minDialTimeout t
       else if avgDialTime t < maxDialTimeout t div 2 then 2 * avgDialTime t
       else maxDialTimeout t)"
    using assms(1-3) by (rule dialTimeout_exact)
next
  show upd: "avgDialTime (updateDialTimeout t L) =
        avgDialTime t + sgn (L - avgDialTime t) * (\<bar>L - avgDialTime t\<bar> div 4)"
    using assms(4-7) by (simp add: update_sel averageTimeout_exact)
  show "maxDialTimeout t \<le> L \<and> maxDialTimeout t div 2 \<le> avgDialTime t
          \<and> minDialTimeout t \<le> maxDialTimeout t div 2 \<longrightarrow>
        dialTimeout (updateDialTimeout t L) = maxDialTimeout t"
  proof
    assume h: "maxDialTimeout t \<le> L \<and> maxDialTimeout t div 2 \<le> avgDialTime t
          \<and> minDialTimeout t \<le> maxDialTimeout t div 2"
    have "maxDialTimeout t div 2 \<le> maxDialTimeout t" using assms(2) by simp
    then have "maxDialTimeout t div 2 \<le> min (avgDialTime t) L" using h by simp
    then have "maxDialTimeout t div 2 \<le> avgDialTime (updateDialTimeout t L)"
      using step_between(1) [of "avgDialTime t" L] by (simp only: upd)
    then show "dialTimeout (updateDialTimeout t L) = maxDialTimeout t"
      using h dialTimeout_exact [of "updateDialTimeout t L"] assms(1-3)
      by (simp add: update_sel)
  qed
next
  obtain K where K: "\<forall>k\<ge>K. \<bar>avgDialTime (observe k t L) - L\<bar> \<le> 3"
    using converge [OF assms(4-7)] by blast
  have "\<bar>avgDialTime (observe k t L) - L\<bar> \<le> 3
          \<and> (minDialTimeout t + 3 \<le> L \<and> L + 3 < maxDialTimeout t div 2 \<longrightarrow>
               dialTimeout (observe k t L) = 2 * avgDialTime (observe k t L)
               \<and> \<bar>dialTimeout (observe k t L) - 2 * L\<bar> \<le> 6)" if "K \<le> k" for k
  proof -
    have near: "\<bar>avgDialTime (observe k t L) - L\<bar> \<le> 3" using K that by blast
    have ex: "dialTimeout (observe k t L) =
       (if avgDialTime (observe k t L) < minDialTimeout t then minDialTimeout t
        else if avgDialTime (observe k t L) < maxDialTimeout t div 2
             then 2 * avgDialTime (observe k t L)
             else maxDialTimeout t)"
      using dialTimeout_exact [of "observe k t L"] assms(1-3) by (simp add: observe_sel)
    show ?thesis using near ex by auto
  qed
  then show "\<exists>K. \<forall>k\<ge>K. \<bar>avgDialTime (observe k t L) - L\<bar> \<le> 3
          \<and> (minDialTimeout t + 3 \<le> L \<and> L + 3 < maxDialTimeout t div 2 \<longrightarrow>
               dialTimeout (observe k t L) = 2 * avgDialTime (observe k t L)
               \<and> \<bar>dialTimeout (observe k t L) - 2 * L\<bar> \<le> 6)"
    by blast
qed

lemma std_sel:
  "minDialTimeout std_transport = 1000000000" "maxDialTimeout std_transport = 30000000000"
  "avgDialTime std_transport = 15000000000"
  by (simp_all add: std_transport_def)

theorem adaptive_dial_timeout_witness:
  "dialTimeout std_transport = 30000000000
   \<and> avgDialTime (updateDialTimeout std_transport 2000000000) = 11750000000
   \<and> (\<exists>K. \<forall>k\<ge>K. \<bar>avgDialTime (observe k std_transport 2000000000) - 2000000000\<bar> \<le> 3
         \<and> \<bar>dialTimeout (observe k std_transport 2000000000) - 4000000000\<bar> \<le> 6)
   \<and> dialTimeout (updateDialTimeout std_transport 30000000000) = 30000000000"
  using adaptive_dial_timeout [of std_transport 2000000000]
    adaptive_dial_timeout [of std_transport 30000000000]
  by (simp add: std_sel) blast

text \<open>
  C8, as stated, fails: with the average at the floor of one second, one dial that takes
  the ceiling of thirty seconds moves the average to 8.25 seconds, and the next timeout is
  16.5 seconds, not the ceiling.
\<close>

theorem slow_dial_after_fast_ones:
  "dialTimeout (updateDialTimeout (std_transport\<lparr>avgDialTime := 1000000000\<rparr>) 30000000000)
     = 16500000000"
  by (simp add: dialTimeout_def updateDialTimeout_def limitTimeout_def averageTimeout_def
      cumulativeAvgWeight_def quot_def wrap64_def std_transport_def)

end
